theory Spec2Isabelle
  imports Complex_Main "HOL-Library.Sublist"
begin

section \<open>Data model (types.ts)\<close>

text \<open>
  A JavaScript \<open>number\<close> is modelled as a \<^typ>\<open>real\<close>: the arithmetic of the handlers
  (differences of pointer coordinates, halving a width, \<open>Math.max\<close>, \<open>+ 1\<close>) is read
  exactly. A JavaScript string is a \<^typ>\<open>string\<close>. Field names follow the source;
  \<open>id\<close>, \<open>x\<close> and \<open>y\<close> are renamed (\<open>photo_id\<close>, \<open>pos_x\<close>, \<open>pos_y\<close>) because they would
  capture HOL's identity function and the variables of every statement.
\<close>

record Position =
  pos_x :: real
  pos_y :: real

record PhotoData =
  photo_id :: string
  dataUrl :: string
  caption :: string
  date :: string
  position :: Position
  zIndex :: real
  isDeveloping :: bool
  isLoadingCaption :: bool

text \<open>\<open>Partial<PhotoData>\<close>: every field may be absent.\<close>

record PhotoUpdates =
  upd_id :: "string option"
  upd_dataUrl :: "string option"
  upd_caption :: "string option"
  upd_date :: "string option"
  upd_position :: "Position option"
  upd_zIndex :: "real option"
  upd_isDeveloping :: "bool option"
  upd_isLoadingCaption :: "bool option"

definition noUpdates :: PhotoUpdates where
  "noUpdates = \<lparr>upd_id = None, upd_dataUrl = None, upd_caption = None, upd_date = None,
     upd_position = None, upd_zIndex = None, upd_isDeveloping = None,
     upd_isLoadingCaption = None\<rparr>"

text \<open>The object spread \<open>{ ...p, ...updates }\<close>.\<close>

definition spread :: "PhotoData \<Rightarrow> PhotoUpdates \<Rightarrow> PhotoData" where
  "spread p u =
     \<lparr>photo_id = (case upd_id u of None \<Rightarrow> photo_id p | Some v \<Rightarrow> v),
      dataUrl = (case upd_dataUrl u of None \<Rightarrow> dataUrl p | Some v \<Rightarrow> v),
      caption = (case upd_caption u of None \<Rightarrow> caption p | Some v \<Rightarrow> v),
      date = (case upd_date u of None \<Rightarrow> date p | Some v \<Rightarrow> v),
      position = (case upd_position u of None \<Rightarrow> position p | Some v \<Rightarrow> v),
      zIndex = (case upd_zIndex u of None \<Rightarrow> zIndex p | Some v \<Rightarrow> v),
      isDeveloping = (case upd_isDeveloping u of None \<Rightarrow> isDeveloping p | Some v \<Rightarrow> v),
      isLoadingCaption =
        (case upd_isLoadingCaption u of None \<Rightarrow> isLoadingCaption p | Some v \<Rightarrow> v)\<rparr>"

section \<open>The App component: state, environment, effects\<close>

text \<open>
  The four \<open>useState\<close> cells of \<open>App\<close>; \<open>null\<close> is \<open>None\<close>. A handler of the source reads
  the cells of the render it was created in, while its updates (\<open>setStagedPhoto(null)\<close>,
  \<open>setPhotos(prev => ...)\<close>) apply to the current cells. The two callbacks of \<open>takePhoto\<close>
  run between renders and write \<open>caption\<close>, \<open>isLoadingCaption\<close> and \<open>isDeveloping\<close>. The one
  handler that reads these fields from its render is \<open>handleStagedMouseDown\<close>, which
  spreads the rendered \<open>stagedPhoto\<close>: it takes that rendered value as an argument beside
  the current state. The other handlers read from their render only what handlers write
  (ids, positions, \<open>zIndex\<close>, whether a photo is staged, the drag state) and are functions
  of the current state.
\<close>

record DragState =
  drag_id :: string
  startX :: real
  startY :: real
  initialPhotoPos :: Position

record AppState =
  photos :: "PhotoData list"
  stagedPhoto :: "PhotoData option"
  cameraError :: "string option"
  dragState :: "DragState option"

record MouseEvent =
  clientX :: real
  clientY :: real

text \<open>The part of \<open>getBoundingClientRect()\<close> that \<open>handleStagedMouseDown\<close> reads.\<close>

record DOMRect =
  rect_left :: real
  rect_top :: real
  rect_width :: real

record Video =
  videoWidth :: real
  videoHeight :: real

text \<open>
  What \<open>takePhoto\<close> reads from the browser: the two refs (\<open>None\<close> or \<open>False\<close> when
  \<open>.current\<close> is null), whether \<open>getContext('2d')\<close> gives a context, the JPEG data URL
  that the canvas yields for a crop \<open>(sx, sy, size)\<close> of the video, and the clock
  (\<open>Date.now().toString()\<close> and the formatted date).
\<close>

record TakePhotoEnv =
  videoRef :: "Video option"
  shutterAudioRef :: bool
  getContext2d :: bool
  toDataURL :: "real \<Rightarrow> real \<Rightarrow> real \<Rightarrow> string"
  dateNow :: string
  dateStr :: string

text \<open>
  The effects a call of \<open>takePhoto\<close> starts, in the order of the source: the shutter
  sound (\<open>currentTime = 0; play()\<close>), the caption fetch for a photo id and its data URL,
  and the timer for a photo id with its delay in milliseconds.
\<close>

datatype Effect =
  PlayShutter
| GenerateCaption string string
| SetTimeout string nat

text \<open>Truthiness of a \<open>string | null\<close> value: null and the empty string are falsy.\<close>

definition truthy :: "string option \<Rightarrow> bool" where
  "truthy v = (case v of None \<Rightarrow> False | Some t \<Rightarrow> t \<noteq> [])"

definition CAMERA_SIZE :: real where "CAMERA_SIZE = 450"
definition PHOTO_WIDTH :: real where "PHOTO_WIDTH = 240"
definition PHOTO_HEIGHT :: real where "PHOTO_HEIGHT = 320"

definition takePhoto :: "TakePhotoEnv \<Rightarrow> AppState \<Rightarrow> AppState \<times> Effect list" where
  "takePhoto env s =
     (case videoRef env of
        None \<Rightarrow> (s, [])
      | Some vid \<Rightarrow>
          if stagedPhoto s \<noteq> None \<or> truthy (cameraError s) then (s, [])
          else
            let sound = (if shutterAudioRef env then [PlayShutter] else []) in
            if videoWidth vid = 0 \<or> videoHeight vid = 0 then (s, sound)
            else
              let size = min (videoWidth vid) (videoHeight vid) in
              if \<not> getContext2d env then (s, sound)
              else
                let sx = (videoWidth vid - size) / 2;
                    sy = (videoHeight vid - size) / 2;
                    url = toDataURL env sx sy size;
                    newId = dateNow env;
                    newPhoto =
                      \<lparr>photo_id = newId, dataUrl = url, caption = [], date = dateStr env,
                       position = \<lparr>pos_x = 0, pos_y = 0\<rparr>, zIndex = 10,
                       isDeveloping = True, isLoadingCaption = True\<rparr>
                in (s\<lparr>stagedPhoto := Some newPhoto\<rparr>,
                    sound @ [GenerateCaption newId url, SetTimeout newId 3500]))"

text \<open>
  The callback of \<open>generateCaption(dataUrl).then\<close>, run when the fetch started for
  \<open>newId\<close> resolves with \<open>c\<close>.
\<close>

definition updateFn :: "string \<Rightarrow> string \<Rightarrow> PhotoData \<Rightarrow> PhotoData" where
  "updateFn newId c p =
     (if photo_id p = newId then p\<lparr>caption := c, isLoadingCaption := False\<rparr> else p)"

definition captionResolved :: "string \<Rightarrow> string \<Rightarrow> AppState \<Rightarrow> AppState" where
  "captionResolved newId c s =
     s\<lparr>stagedPhoto :=
         (case stagedPhoto s of
            None \<Rightarrow> None
          | Some prev \<Rightarrow> if photo_id prev = newId then Some (updateFn newId c prev) else Some prev),
       photos := map (updateFn newId c) (photos s)\<rparr>"

text \<open>The callback of \<open>setTimeout(..., 3500)\<close>.\<close>

definition clearDevFn :: "string \<Rightarrow> PhotoData \<Rightarrow> PhotoData" where
  "clearDevFn newId p = (if photo_id p = newId then p\<lparr>isDeveloping := False\<rparr> else p)"

definition timerFired :: "string \<Rightarrow> AppState \<Rightarrow> AppState" where
  "timerFired newId s =
     s\<lparr>stagedPhoto :=
         (case stagedPhoto s of
            None \<Rightarrow> None
          | Some prev \<Rightarrow> if photo_id prev = newId then Some (clearDevFn newId prev) else Some prev),
       photos := map (clearDevFn newId) (photos s)\<rparr>"

subsection \<open>Drag logic\<close>

text \<open>
  \<open>handleStagedMouseDown\<close>. The second argument is
  \<open>cameraContainerRef.current.getBoundingClientRect()\<close>, \<open>None\<close> when the ref is null. The
  third is the \<open>stagedPhoto\<close> of the render the handler was created in: the guard and the
  spread \<open>{ ...stagedPhoto, position, zIndex }\<close> read it. \<open>setStagedPhoto(null)\<close> and
  \<open>setPhotos(prev => [...prev, wallPhoto])\<close> apply to the current state. When a render has
  followed the last change of the slot, the third argument is \<open>stagedPhoto s\<close>.
\<close>

definition handleStagedMouseDown ::
  "MouseEvent \<Rightarrow> DOMRect option \<Rightarrow> PhotoData option \<Rightarrow> AppState \<Rightarrow> AppState" where
  "handleStagedMouseDown e container rendered s =
     (case (rendered, container) of
        (Some staged, Some rect) \<Rightarrow>
          let photoCenterX = rect_left rect + rect_width rect / 2;
              photoCenterY = rect_top rect - PHOTO_HEIGHT * 0.25;
              wallPhoto = staged\<lparr>position := \<lparr>pos_x = photoCenterX - PHOTO_WIDTH / 2,
                                               pos_y = photoCenterY\<rparr>,
                                 zIndex := 100\<rparr>
          in s\<lparr>stagedPhoto := None,
               photos := photos s @ [wallPhoto],
               dragState := Some \<lparr>drag_id = photo_id wallPhoto, startX = clientX e,
                                   startY = clientY e,
                                   initialPhotoPos = position wallPhoto\<rparr>\<rparr>
      | _ \<Rightarrow> s)"

text \<open>\<open>Math.max(...zs, 100)\<close>: the maximum of a spread list and a last argument.\<close>

definition Math_max :: "real list \<Rightarrow> real \<Rightarrow> real" where
  "Math_max zs z = foldr max zs z"

definition handleWallMouseDown :: "MouseEvent \<Rightarrow> PhotoData \<Rightarrow> AppState \<Rightarrow> AppState" where
  "handleWallMouseDown e photo s =
     (let maxZ = Math_max (map zIndex (photos s)) 100 + 1 in
      s\<lparr>photos := map (\<lambda>p. if photo_id p = photo_id photo then p\<lparr>zIndex := maxZ\<rparr> else p)
                     (photos s),
        dragState := Some \<lparr>drag_id = photo_id photo, startX = clientX e, startY = clientY e,
                            initialPhotoPos = position photo\<rparr>\<rparr>)"

definition handleGlobalMouseMove :: "MouseEvent \<Rightarrow> AppState \<Rightarrow> AppState" where
  "handleGlobalMouseMove e s =
     (case dragState s of
        None \<Rightarrow> s
      | Some d \<Rightarrow>
          let dx = clientX e - startX d;
              dy = clientY e - startY d
          in s\<lparr>photos :=
                 map (\<lambda>p. if photo_id p = drag_id d
                          then p\<lparr>position := \<lparr>pos_x = pos_x (initialPhotoPos d) + dx,
                                               pos_y = pos_y (initialPhotoPos d) + dy\<rparr>\<rparr>
                          else p)
                     (photos s)\<rparr>)"

definition handleGlobalMouseUp :: "AppState \<Rightarrow> AppState" where
  "handleGlobalMouseUp s = s\<lparr>dragState := None\<rparr>"

text \<open>A sequence of mouse-move events, handled one after the other.\<close>

fun mouseMoves :: "MouseEvent list \<Rightarrow> AppState \<Rightarrow> AppState" where
  "mouseMoves [] s = s"
| "mouseMoves (e # es) s = mouseMoves es (handleGlobalMouseMove e s)"

subsection \<open>Render helpers\<close>

definition updatePhoto :: "string \<Rightarrow> PhotoUpdates \<Rightarrow> AppState \<Rightarrow> AppState" where
  "updatePhoto i updates s =
     s\<lparr>photos := map (\<lambda>p. if photo_id p = i then spread p updates else p) (photos s)\<rparr>"

definition deletePhoto :: "string \<Rightarrow> AppState \<Rightarrow> AppState" where
  "deletePhoto i s = s\<lparr>photos := filter (\<lambda>p. photo_id p \<noteq> i) (photos s)\<rparr>"

section \<open>The Polaroid component\<close>

record PolaroidState =
  isHovering :: bool
  isEditing :: bool
  editText :: string

text \<open>
  \<open>saveEdit\<close> and \<open>cancelEdit\<close> of a card showing \<open>photo\<close>, with the \<open>onUpdate\<close> prop as a
  parameter: \<open>App\<close> passes \<open>updatePhoto\<close> to a wall card and \<open>() => {}\<close> to the staged one.
\<close>

definition saveEdit ::
  "(string \<Rightarrow> PhotoUpdates \<Rightarrow> AppState \<Rightarrow> AppState) \<Rightarrow> PhotoData \<Rightarrow> PolaroidState \<Rightarrow> AppState
     \<Rightarrow> AppState \<times> PolaroidState" where
  "saveEdit onUpdate photo ps s =
     (onUpdate (photo_id photo) (noUpdates\<lparr>upd_caption := Some (editText ps)\<rparr>) s,
      ps\<lparr>isEditing := False\<rparr>)"

definition cancelEdit ::
  "(string \<Rightarrow> PhotoUpdates \<Rightarrow> AppState \<Rightarrow> AppState) \<Rightarrow> PhotoData \<Rightarrow> PolaroidState \<Rightarrow> AppState
     \<Rightarrow> AppState \<times> PolaroidState" where
  "cancelEdit onUpdate photo ps s = (s, ps\<lparr>editText := caption photo, isEditing := False\<rparr>)"

definition onUpdateStaged :: "string \<Rightarrow> PhotoUpdates \<Rightarrow> AppState \<Rightarrow> AppState" where
  "onUpdateStaged i updates s = s"

section \<open>services/geminiService.ts\<close>

text \<open>
  The outcome of the external part of the \<open>try\<close> block (the client's constructor and the
  awaited \<open>ai.models.generateContent\<close> call): something throws, or the call gives a
  response whose \<open>text\<close> is absent or a string.
\<close>

datatype ApiOutcome = Throws | Response "string option"

text \<open>
  The environment of \<open>generateCaption\<close>: \<open>process.env.API_KEY\<close>, \<open>navigator.language\<close>, and
  the external call as a function of the image data and the locale sent (the model name,
  the mime type and the wording of the prompt around the locale are constants).
\<close>

record GeminiEnv =
  API_KEY :: "string option"
  language :: "string option"
  generateContent :: "string \<Rightarrow> string \<Rightarrow> ApiOutcome"

text \<open>\<open>base64Image.replace(/^data:image\/(png|jpeg|webp);base64,/, "")\<close>.\<close>

definition cleanBase64 :: "string \<Rightarrow> string" where
  "cleanBase64 img =
     (if prefix ''data:image/png;base64,'' img then drop (length ''data:image/png;base64,'') img
      else if prefix ''data:image/jpeg;base64,'' img
        then drop (length ''data:image/jpeg;base64,'') img
      else if prefix ''data:image/webp;base64,'' img
        then drop (length ''data:image/webp;base64,'') img
      else img)"

text \<open>
  \<open>String.prototype.trim\<close> strips white space and line terminators from both ends. Of
  these, a \<^typ>\<open>char\<close> can hold the code units 9 to 13, 32 and 160.
\<close>

definition isWhiteSpace :: "char \<Rightarrow> bool" where
  "isWhiteSpace c = ((of_char c :: nat) \<in> {9, 10, 11, 12, 13, 32, 160})"

definition trim :: "string \<Rightarrow> string" where
  "trim t = rev (dropWhile isWhiteSpace (rev (dropWhile isWhiteSpace t)))"

text \<open>
  \<open>v || d\<close> for a \<open>string | undefined\<close> value \<open>v\<close>: \<open>d\<close> when \<open>v\<close> is falsy. With
  \<^const>\<open>map_option\<close> it reads \<open>response.text?.trim() || d\<close>.
\<close>

definition orElse :: "string option \<Rightarrow> string \<Rightarrow> string" where
  "orElse v d = (case v of None \<Rightarrow> d | Some t \<Rightarrow> if t = [] then d else t)"

text \<open>A promise that has settled.\<close>

datatype 'a Promise = Resolved 'a | Rejected string

text \<open>
  The body of the \<open>try\<close> block: \<open>Inl\<close> is an exception thrown inside it, \<open>Inr\<close> the value
  of its \<open>return\<close>.
\<close>

definition tryBody :: "GeminiEnv \<Rightarrow> string \<Rightarrow> string + string" where
  "tryBody env base64Image =
     (let locale = orElse (language env) ''en-US'' in
      case generateContent env (cleanBase64 base64Image) locale of
        Throws \<Rightarrow> Inl ''Gemini API Error''
      | Response txt \<Rightarrow> Inr (orElse (map_option trim txt) ''A beautiful moment captured.''))"

definition generateCaption :: "GeminiEnv \<Rightarrow> string \<Rightarrow> string Promise" where
  "generateCaption env base64Image =
     (if \<not> truthy (API_KEY env) then Resolved ''Memories are timeless...''
      else case tryBody env base64Image of
             Inl err \<Rightarrow> Resolved ''A moment frozen in time.''
           | Inr c \<Rightarrow> Resolved c)"

section \<open>Sample values\<close>

text \<open>
  Concrete photos, states and environments on which the theorems below are instantiated:
  a wall of two photos with a third one staged, the same wall during a drag of photo
  \<open>2\<close>, a wall with a repeated id, and browser environments for \<open>takePhoto\<close> and
  \<open>generateCaption\<close>.
\<close>

definition photoA :: PhotoData where
  "photoA = \<lparr>photo_id = ''1'', dataUrl = ''data:a'', caption = ''first'', date = ''Jan 1, 2025'',
     position = \<lparr>pos_x = 10, pos_y = 20\<rparr>, zIndex = 100, isDeveloping = False,
     isLoadingCaption = False\<rparr>"

definition photoB :: PhotoData where
  "photoB = \<lparr>photo_id = ''2'', dataUrl = ''data:b'', caption = [], date = ''Jan 2, 2025'',
     position = \<lparr>pos_x = 300, pos_y = 40\<rparr>, zIndex = 103, isDeveloping = True,
     isLoadingCaption = True\<rparr>"

definition photoC :: PhotoData where
  "photoC = \<lparr>photo_id = ''3'', dataUrl = ''data:c'', caption = [], date = ''Jan 3, 2025'',
     position = \<lparr>pos_x = 0, pos_y = 0\<rparr>, zIndex = 10, isDeveloping = True,
     isLoadingCaption = True\<rparr>"

definition wallState :: AppState where
  "wallState = \<lparr>photos = [photoA, photoB], stagedPhoto = Some photoC, cameraError = None,
     dragState = None\<rparr>"

definition draggingState :: AppState where
  "draggingState = \<lparr>photos = [photoA, photoB], stagedPhoto = Some photoC, cameraError = None,
     dragState = Some \<lparr>drag_id = ''2'', startX = 5, startY = 7,
                        initialPhotoPos = \<lparr>pos_x = 300, pos_y = 40\<rparr>\<rparr>\<rparr>"

definition repeatedState :: AppState where
  "repeatedState = \<lparr>photos = [photoA, photoB, photoA], stagedPhoto = None, cameraError = None,
     dragState = None\<rparr>"

definition emptyState :: AppState where
  "emptyState = \<lparr>photos = [], stagedPhoto = None, cameraError = None, dragState = None\<rparr>"

definition errorState :: AppState where
  "errorState = \<lparr>photos = [], stagedPhoto = None, cameraError = Some ''Camera not found.'',
     dragState = None\<rparr>"

definition cameraEnv :: TakePhotoEnv where
  "cameraEnv = \<lparr>videoRef = Some \<lparr>videoWidth = 640, videoHeight = 480\<rparr>,
     shutterAudioRef = True, getContext2d = True,
     toDataURL = (\<lambda>sx sy size. ''data:image/jpeg;base64,QUJD''),
     dateNow = ''1700000000000'', dateStr = ''Nov 14, 2023''\<rparr>"

definition notReadyEnv :: TakePhotoEnv where
  "notReadyEnv = \<lparr>videoRef = Some \<lparr>videoWidth = 0, videoHeight = 0\<rparr>,
     shutterAudioRef = True, getContext2d = True,
     toDataURL = (\<lambda>sx sy size. ''data:image/jpeg;base64,QUJD''),
     dateNow = ''1700000000000'', dateStr = ''Nov 14, 2023''\<rparr>"

definition cameraRect :: DOMRect where
  "cameraRect = \<lparr>rect_left = 64, rect_top = 500, rect_width = 450\<rparr>"

definition clickAt :: MouseEvent where
  "clickAt = \<lparr>clientX = 5, clientY = 7\<rparr>"

definition moveVia :: MouseEvent where
  "moveVia = \<lparr>clientX = 400, clientY = 1\<rparr>"

definition moveTo :: MouseEvent where
  "moveTo = \<lparr>clientX = 25, clientY = 4\<rparr>"

definition editingCard :: PolaroidState where
  "editingCard = \<lparr>isHovering = True, isEditing = True, editText = ''edited''\<rparr>"

definition noKeyEnv :: GeminiEnv where
  "noKeyEnv = \<lparr>API_KEY = None, language = Some ''en-GB'',
     generateContent = (\<lambda>img locale. Response (Some ''Hi''))\<rparr>"

definition throwingEnv :: GeminiEnv where
  "throwingEnv = \<lparr>API_KEY = Some ''k'', language = None,
     generateContent = (\<lambda>img locale. Throws)\<rparr>"

definition blankEnv :: GeminiEnv where
  "blankEnv = \<lparr>API_KEY = Some ''k'', language = Some ''en-GB'',
     generateContent = (\<lambda>img locale. Response (Some '' ''))\<rparr>"

definition absentEnv :: GeminiEnv where
  "absentEnv = \<lparr>API_KEY = Some ''k'', language = Some ''en-GB'',
     generateContent = (\<lambda>img locale. Response None)\<rparr>"

definition answeringEnv :: GeminiEnv where
  "answeringEnv = \<lparr>API_KEY = Some ''k'', language = Some ''en-GB'',
     generateContent = (\<lambda>img locale. Response (Some '' Warm light, old friends ''))\<rparr>"

lemmas sample_defs =
  photoA_def photoB_def photoC_def wallState_def draggingState_def repeatedState_def
  emptyState_def errorState_def cameraEnv_def notReadyEnv_def cameraRect_def clickAt_def
  moveVia_def moveTo_def editingCard_def noKeyEnv_def throwingEnv_def blankEnv_def
  absentEnv_def answeringEnv_def

section \<open>Auxiliary facts\<close>

subsection \<open>\<open>Math.max\<close>\<close>

lemma Math_max_Max: "Math_max zs z = Max (insert z (set zs))"
proof (induction zs)
  case Nil
  show ?case by (simp add: Math_max_def)
next
  case (Cons a zs)
  have "Math_max (a # zs) z = max a (Math_max zs z)"
    by (simp add: Math_max_def)
  also have "\<dots> = max a (Max (insert z (set zs)))"
    by (simp only: Cons.IH)
  also have "\<dots> = Max (insert a (insert z (set zs)))"
    by (rule Max_insert[symmetric]) simp_all
  also have "insert a (insert z (set zs)) = insert z (set (a # zs))"
    by auto
  finally show ?case .
qed

subsection \<open>The handlers, unfolded\<close>

lemma handleStagedMouseDown_Some:
  "handleStagedMouseDown e (Some rect) (Some p) s =
     s\<lparr>stagedPhoto := None,
       photos := photos s @
         [p\<lparr>position := \<lparr>pos_x = rect_left rect + rect_width rect / 2 - 120,
                           pos_y = rect_top rect - 80\<rparr>, zIndex := 100\<rparr>],
       dragState := Some \<lparr>drag_id = photo_id p, startX = clientX e, startY = clientY e,
         initialPhotoPos = \<lparr>pos_x = rect_left rect + rect_width rect / 2 - 120,
                             pos_y = rect_top rect - 80\<rparr>\<rparr>\<rparr>"
  by (simp add: handleStagedMouseDown_def PHOTO_HEIGHT_def PHOTO_WIDTH_def Let_def)

lemma takePhoto_shot:
  assumes "videoRef env = Some vid" "videoWidth vid \<noteq> 0" "videoHeight vid \<noteq> 0"
    "stagedPhoto s = None" "\<not> truthy (cameraError s)" "getContext2d env"
  shows "takePhoto env s =
    (s\<lparr>stagedPhoto := Some
        \<lparr>photo_id = dateNow env,
         dataUrl = toDataURL env ((videoWidth vid - min (videoWidth vid) (videoHeight vid)) / 2)
           ((videoHeight vid - min (videoWidth vid) (videoHeight vid)) / 2)
           (min (videoWidth vid) (videoHeight vid)),
         caption = [], date = dateStr env, position = \<lparr>pos_x = 0, pos_y = 0\<rparr>, zIndex = 10,
         isDeveloping = True, isLoadingCaption = True\<rparr>\<rparr>,
     (if shutterAudioRef env then [PlayShutter] else []) @
       [GenerateCaption (dateNow env)
          (toDataURL env ((videoWidth vid - min (videoWidth vid) (videoHeight vid)) / 2)
            ((videoHeight vid - min (videoWidth vid) (videoHeight vid)) / 2)
            (min (videoWidth vid) (videoHeight vid))),
        SetTimeout (dateNow env) 3500])"
  using assms by (simp add: takePhoto_def Let_def)

lemma wallDown_nth:
  "i < length (photos s) \<Longrightarrow>
   photos (handleWallMouseDown e p s) ! i =
     (if photo_id (photos s ! i) = photo_id p
      then (photos s ! i)\<lparr>zIndex := Math_max (map zIndex (photos s)) 100 + 1\<rparr>
      else photos s ! i)"
  by (simp add: handleWallMouseDown_def Let_def)

lemma wallDown_frame:
  "length (photos (handleWallMouseDown e p s)) = length (photos s)"
  "stagedPhoto (handleWallMouseDown e p s) = stagedPhoto s"
  "cameraError (handleWallMouseDown e p s) = cameraError s"
  "dragState (handleWallMouseDown e p s) =
     Some \<lparr>drag_id = photo_id p, startX = clientX e, startY = clientY e,
           initialPhotoPos = position p\<rparr>"
  by (simp_all add: handleWallMouseDown_def Let_def)

lemma move_nth:
  "dragState s = Some d \<Longrightarrow> i < length (photos s) \<Longrightarrow>
   photos (handleGlobalMouseMove e s) ! i =
     (if photo_id (photos s ! i) = drag_id d
      then (photos s ! i)\<lparr>position :=
             \<lparr>pos_x = pos_x (initialPhotoPos d) + (clientX e - startX d),
              pos_y = pos_y (initialPhotoPos d) + (clientY e - startY d)\<rparr>\<rparr>
      else photos s ! i)"
  by (simp add: handleGlobalMouseMove_def Let_def)

lemma move_frame:
  "stagedPhoto (handleGlobalMouseMove e s) = stagedPhoto s"
  "cameraError (handleGlobalMouseMove e s) = cameraError s"
  "dragState (handleGlobalMouseMove e s) = dragState s"
  "length (photos (handleGlobalMouseMove e s)) = length (photos s)"
  by (simp_all add: handleGlobalMouseMove_def Let_def split: option.splits)

lemma move_idle: "dragState s = None \<Longrightarrow> handleGlobalMouseMove e s = s"
  by (simp add: handleGlobalMouseMove_def)

text \<open>
  A mouse-move overwrites what the mouse-move before it wrote: both compute from the
  drag state, which no mouse-move changes.
\<close>

lemma move_move:
  "handleGlobalMouseMove e (handleGlobalMouseMove e' s) = handleGlobalMouseMove e s"
proof (cases "dragState s")
  case None
  then show ?thesis by (simp add: move_idle)
next
  case (Some d)
  have "photos (handleGlobalMouseMove e (handleGlobalMouseMove e' s)) =
        photos (handleGlobalMouseMove e s)"
    by (rule nth_equalityI) (simp_all add: move_frame move_nth[OF Some] move_nth[of _ d] Some)
  moreover have "handleGlobalMouseMove e (handleGlobalMouseMove e' s) =
      (handleGlobalMouseMove e' s)\<lparr>photos :=
         photos (handleGlobalMouseMove e (handleGlobalMouseMove e' s))\<rparr>"
    by (simp add: handleGlobalMouseMove_def Let_def move_frame Some)
  moreover have "handleGlobalMouseMove e s =
      (handleGlobalMouseMove e' s)\<lparr>photos := photos (handleGlobalMouseMove e s)\<rparr>"
    by (simp add: handleGlobalMouseMove_def Let_def Some)
  ultimately show ?thesis by simp
qed

lemma mouseMoves_last: "mouseMoves (es @ [e]) s = handleGlobalMouseMove e s"
proof (induction es arbitrary: s)
  case Nil
  show ?case by simp
next
  case (Cons a es)
  have "mouseMoves ((a # es) @ [e]) s = handleGlobalMouseMove e (handleGlobalMouseMove a s)"
    by (simp add: Cons.IH)
  then show ?case by (simp add: move_move)
qed

subsection \<open>Spread, \<open>||\<close> and \<open>trim\<close>\<close>

lemma spread_caption_only: "spread p (noUpdates\<lparr>upd_caption := Some t\<rparr>) = p\<lparr>caption := t\<rparr>"
  by (cases p) (simp add: spread_def noUpdates_def)

lemma orElse_simps:
  "orElse None d = d"
  "orElse (Some t) d = (if t = [] then d else t)"
  by (simp_all add: orElse_def)

lemma trim_Nil: "trim [] = []"
  by (simp add: trim_def)

section \<open>The caption fetch and the developing timer\<close>

text \<open>
  Claim C1. When the caption fetch that \<open>takePhoto\<close> started for the photo with id \<open>n\<close>
  resolves with caption \<open>c\<close>, the completion step sets \<open>caption\<close> to \<open>c\<close> and
  \<open>isLoadingCaption\<close> to false on every wall photo with id \<open>n\<close> and on the staged photo
  if its id is \<open>n\<close>; every other field of those photos and every photo with another id
  stay as they were, as do the camera error and the drag state. In particular a photo
  that was promoted to the wall before the fetch resolved receives its caption there,
  from whichever render with a photo of id \<open>n\<close> the promoting handler came.
\<close>

theorem caption_completion_reaches_photo:
  "length (photos (captionResolved n c s)) = length (photos s) \<and>
   (\<forall>i < length (photos s).
      photos (captionResolved n c s) ! i =
        (if photo_id (photos s ! i) = n
         then (photos s ! i)\<lparr>caption := c, isLoadingCaption := False\<rparr>
         else photos s ! i)) \<and>
   stagedPhoto (captionResolved n c s) =
     (case stagedPhoto s of
        None \<Rightarrow> None
      | Some p \<Rightarrow>
          Some (if photo_id p = n then p\<lparr>caption := c, isLoadingCaption := False\<rparr> else p)) \<and>
   cameraError (captionResolved n c s) = cameraError s \<and>
   dragState (captionResolved n c s) = dragState s \<and>
   (\<forall>p e rect. stagedPhoto s = Some p \<and> photo_id p = n \<longrightarrow>
      (let promoted = handleStagedMouseDown e (Some rect) (stagedPhoto s) s in
       stagedPhoto (captionResolved n c promoted) = None \<and>
       last (photos (captionResolved n c promoted)) =
         (last (photos promoted))\<lparr>caption := c, isLoadingCaption := False\<rparr> \<and>
       photo_id (last (photos promoted)) = n)) \<and>
   (\<forall>r e rect. photo_id r = n \<longrightarrow>
      (let promoted = handleStagedMouseDown e (Some rect) (Some r) s in
       stagedPhoto (captionResolved n c promoted) = None \<and>
       last (photos (captionResolved n c promoted)) =
         (last (photos promoted))\<lparr>caption := c, isLoadingCaption := False\<rparr> \<and>
       photo_id (last (photos promoted)) = n))"
  by (auto simp: captionResolved_def updateFn_def handleStagedMouseDown_Some Let_def
      split: option.splits)

theorem caption_completion_reaches_photo_witness:
  "stagedPhoto (captionResolved ''3'' ''hello'' wallState) =
     Some (photoC\<lparr>caption := ''hello'', isLoadingCaption := False\<rparr>) \<and>
   photos (captionResolved ''3'' ''hello'' wallState) = [photoA, photoB] \<and>
   photos (captionResolved ''2'' ''hello'' wallState) =
     [photoA, photoB\<lparr>caption := ''hello'', isLoadingCaption := False\<rparr>] \<and>
   photos (captionResolved ''3'' ''hello''
       (handleStagedMouseDown clickAt (Some cameraRect) (Some photoC) wallState)) =
     [photoA, photoB,
      photoC\<lparr>caption := ''hello'', isLoadingCaption := False,
             position := \<lparr>pos_x = 169, pos_y = 420\<rparr>, zIndex := 100\<rparr>]"
  using caption_completion_reaches_photo[of "''3''" "''hello''" wallState]
    caption_completion_reaches_photo[of "''2''" "''hello''" wallState]
  by (simp add: captionResolved_def updateFn_def handleStagedMouseDown_Some sample_defs)

text \<open>
  Claim C2. A shot that passes the guards of \<open>takePhoto\<close> stages a photo with the id of
  the clock, \<open>isDeveloping\<close> and \<open>isLoadingCaption\<close> true and an empty caption, leaves the
  wall alone, and starts the timer for that id. The timer step sets \<open>isDeveloping\<close> to
  false on the photo with that id, whether it is still staged or was promoted to the wall
  in between (by the handler of the current render or of any render showing a photo with
  that id); in general, \<open>timerFired n\<close> changes nothing but the \<open>isDeveloping\<close> field of
  the photos with id \<open>n\<close>.
\<close>

theorem photo_develops_until_timer:
  "(\<forall>vid. videoRef env = Some vid \<and> videoWidth vid \<noteq> 0 \<and> videoHeight vid \<noteq> 0 \<and>
      stagedPhoto s = None \<and> \<not> truthy (cameraError s) \<and> getContext2d env \<longrightarrow>
      (\<exists>p. stagedPhoto (fst (takePhoto env s)) = Some p \<and>
         photo_id p = dateNow env \<and> isDeveloping p \<and> isLoadingCaption p \<and> caption p = [] \<and>
         photos (fst (takePhoto env s)) = photos s \<and>
         SetTimeout (dateNow env) 3500 \<in> set (snd (takePhoto env s)) \<and>
         stagedPhoto (timerFired (dateNow env) (fst (takePhoto env s))) =
           Some (p\<lparr>isDeveloping := False\<rparr>) \<and>
         (\<forall>e rect.
            last (photos (timerFired (dateNow env)
                (handleStagedMouseDown e (Some rect) (Some p) (fst (takePhoto env s))))) =
              (last (photos
                (handleStagedMouseDown e (Some rect) (Some p) (fst (takePhoto env s)))))
                \<lparr>isDeveloping := False\<rparr> \<and>
            photo_id (last (photos
                (handleStagedMouseDown e (Some rect) (Some p) (fst (takePhoto env s)))))
              = dateNow env) \<and>
         (\<forall>r e rect. photo_id r = dateNow env \<longrightarrow>
            last (photos (timerFired (dateNow env)
                (handleStagedMouseDown e (Some rect) (Some r) (fst (takePhoto env s))))) =
              (last (photos
                (handleStagedMouseDown e (Some rect) (Some r) (fst (takePhoto env s)))))
                \<lparr>isDeveloping := False\<rparr>))) \<and>
   length (photos (timerFired n s)) = length (photos s) \<and>
   (\<forall>i < length (photos s).
      photos (timerFired n s) ! i =
        (if photo_id (photos s ! i) = n then (photos s ! i)\<lparr>isDeveloping := False\<rparr>
         else photos s ! i)) \<and>
   stagedPhoto (timerFired n s) =
     (case stagedPhoto s of
        None \<Rightarrow> None
      | Some p \<Rightarrow> Some (if photo_id p = n then p\<lparr>isDeveloping := False\<rparr> else p)) \<and>
   cameraError (timerFired n s) = cameraError s \<and>
   dragState (timerFired n s) = dragState s"
proof -
  have shot: "\<forall>vid. videoRef env = Some vid \<and> videoWidth vid \<noteq> 0 \<and> videoHeight vid \<noteq> 0 \<and>
      stagedPhoto s = None \<and> \<not> truthy (cameraError s) \<and> getContext2d env \<longrightarrow>
      (\<exists>p. stagedPhoto (fst (takePhoto env s)) = Some p \<and>
         photo_id p = dateNow env \<and> isDeveloping p \<and> isLoadingCaption p \<and> caption p = [] \<and>
         photos (fst (takePhoto env s)) = photos s \<and>
         SetTimeout (dateNow env) 3500 \<in> set (snd (takePhoto env s)) \<and>
         stagedPhoto (timerFired (dateNow env) (fst (takePhoto env s))) =
           Some (p\<lparr>isDeveloping := False\<rparr>) \<and>
         (\<forall>e rect.
            last (photos (timerFired (dateNow env)
                (handleStagedMouseDown e (Some rect) (Some p) (fst (takePhoto env s))))) =
              (last (photos
                (handleStagedMouseDown e (Some rect) (Some p) (fst (takePhoto env s)))))
                \<lparr>isDeveloping := False\<rparr> \<and>
            photo_id (last (photos
                (handleStagedMouseDown e (Some rect) (Some p) (fst (takePhoto env s)))))
              = dateNow env) \<and>
         (\<forall>r e rect. photo_id r = dateNow env \<longrightarrow>
            last (photos (timerFired (dateNow env)
                (handleStagedMouseDown e (Some rect) (Some r) (fst (takePhoto env s))))) =
              (last (photos
                (handleStagedMouseDown e (Some rect) (Some r) (fst (takePhoto env s)))))
                \<lparr>isDeveloping := False\<rparr>))"
    by (clarify, simp add: takePhoto_shot handleStagedMouseDown_Some timerFired_def clearDevFn_def)
  have timer: "length (photos (timerFired n s)) = length (photos s) \<and>
   (\<forall>i < length (photos s).
      photos (timerFired n s) ! i =
        (if photo_id (photos s ! i) = n then (photos s ! i)\<lparr>isDeveloping := False\<rparr>
         else photos s ! i)) \<and>
   stagedPhoto (timerFired n s) =
     (case stagedPhoto s of
        None \<Rightarrow> None
      | Some p \<Rightarrow> Some (if photo_id p = n then p\<lparr>isDeveloping := False\<rparr> else p)) \<and>
   cameraError (timerFired n s) = cameraError s \<and>
   dragState (timerFired n s) = dragState s"
    by (auto simp: timerFired_def clearDevFn_def split: option.splits)
  from shot timer show ?thesis by (rule conjI)
qed

theorem photo_develops_until_timer_witness:
  "stagedPhoto (fst (takePhoto cameraEnv emptyState)) =
     Some \<lparr>photo_id = ''1700000000000'', dataUrl = ''data:image/jpeg;base64,QUJD'',
           caption = [], date = ''Nov 14, 2023'', position = \<lparr>pos_x = 0, pos_y = 0\<rparr>,
           zIndex = 10, isDeveloping = True, isLoadingCaption = True\<rparr> \<and>
   snd (takePhoto cameraEnv emptyState) =
     [PlayShutter, GenerateCaption ''1700000000000'' ''data:image/jpeg;base64,QUJD'',
      SetTimeout ''1700000000000'' 3500] \<and>
   stagedPhoto (timerFired ''1700000000000'' (fst (takePhoto cameraEnv emptyState))) =
     Some \<lparr>photo_id = ''1700000000000'', dataUrl = ''data:image/jpeg;base64,QUJD'',
           caption = [], date = ''Nov 14, 2023'', position = \<lparr>pos_x = 0, pos_y = 0\<rparr>,
           zIndex = 10, isDeveloping = False, isLoadingCaption = True\<rparr> \<and>
   photos (timerFired ''1700000000000''
       (handleStagedMouseDown clickAt (Some cameraRect)
          (stagedPhoto (fst (takePhoto cameraEnv emptyState)))
          (fst (takePhoto cameraEnv emptyState)))) =
     [\<lparr>photo_id = ''1700000000000'', dataUrl = ''data:image/jpeg;base64,QUJD'',
       caption = [], date = ''Nov 14, 2023'', position = \<lparr>pos_x = 169, pos_y = 420\<rparr>,
       zIndex = 100, isDeveloping = False, isLoadingCaption = True\<rparr>] \<and>
   photos (timerFired ''2'' wallState) = [photoA, photoB\<lparr>isDeveloping := False\<rparr>] \<and>
   stagedPhoto (timerFired ''2'' wallState) = Some photoC"
  using photo_develops_until_timer[of cameraEnv emptyState "''2''"]
    photo_develops_until_timer[of cameraEnv wallState "''2''"]
  by (simp add: takePhoto_def truthy_def timerFired_def clearDevFn_def handleStagedMouseDown_Some
      sample_defs Let_def)

section \<open>The drag tracker\<close>

text \<open>
  Claim C3. The drag state is one optional record, so it names at most one photo id.
  While a drag with id \<open>d\<close> is active, a global mouse-move leaves every wall photo with
  another id exactly as it was and changes at most the position of a photo with id \<open>d\<close>;
  the length of the wall, the staged slot, the camera error and the drag state are kept.
  With no active drag the mouse-move changes nothing.
\<close>

theorem mouse_move_changes_only_dragged:
  "(dragState s = None \<longrightarrow> handleGlobalMouseMove e s = s) \<and>
   length (photos (handleGlobalMouseMove e s)) = length (photos s) \<and>
   (\<forall>d i. dragState s = Some d \<and> i < length (photos s) \<and>
      photo_id (photos s ! i) \<noteq> drag_id d \<longrightarrow>
      photos (handleGlobalMouseMove e s) ! i = photos s ! i) \<and>
   (\<forall>d i. dragState s = Some d \<and> i < length (photos s) \<and>
      photo_id (photos s ! i) = drag_id d \<longrightarrow>
      (\<exists>pos. photos (handleGlobalMouseMove e s) ! i = (photos s ! i)\<lparr>position := pos\<rparr>)) \<and>
   stagedPhoto (handleGlobalMouseMove e s) = stagedPhoto s \<and>
   cameraError (handleGlobalMouseMove e s) = cameraError s \<and>
   dragState (handleGlobalMouseMove e s) = dragState s \<and>
   card {i. \<exists>d. dragState s = Some d \<and> drag_id d = i} \<le> 1"
proof -
  have one: "card {i. \<exists>d. dragState s = Some d \<and> drag_id d = i} \<le> 1"
  proof (cases "dragState s")
    case None
    then show ?thesis by simp
  next
    case (Some d)
    then have "{i. \<exists>d. dragState s = Some d \<and> drag_id d = i} = {drag_id d}" by auto
    then show ?thesis by simp
  qed
  have others: "\<forall>d i. dragState s = Some d \<and> i < length (photos s) \<and>
      photo_id (photos s ! i) \<noteq> drag_id d \<longrightarrow>
      photos (handleGlobalMouseMove e s) ! i = photos s ! i"
    by (simp add: move_nth)
  have dragged: "\<forall>d i. dragState s = Some d \<and> i < length (photos s) \<and>
      photo_id (photos s ! i) = drag_id d \<longrightarrow>
      (\<exists>pos. photos (handleGlobalMouseMove e s) ! i = (photos s ! i)\<lparr>position := pos\<rparr>)"
    by (auto simp: move_nth)
  show ?thesis
    using one others dragged by (simp add: move_frame move_idle)
qed

theorem mouse_move_changes_only_dragged_witness:
  "photos (handleGlobalMouseMove moveTo draggingState) =
     [photoA, photoB\<lparr>position := \<lparr>pos_x = 320, pos_y = 37\<rparr>\<rparr>] \<and>
   stagedPhoto (handleGlobalMouseMove moveTo draggingState) = Some photoC \<and>
   handleGlobalMouseMove moveTo wallState = wallState"
  using mouse_move_changes_only_dragged[of draggingState moveTo]
    mouse_move_changes_only_dragged[of wallState moveTo]
  by (simp add: handleGlobalMouseMove_def Let_def sample_defs)

text \<open>
  Claim C4. During a drag that began at pointer \<open>(startX, startY)\<close> with the photo at
  \<open>p0\<close>, a mouse-move to \<open>(cx, cy)\<close> puts the dragged photo at
  \<open>(p0.x + cx - startX, p0.y + cy - startY)\<close>. A sequence of mouse-moves gives the state
  that its last mouse-move alone gives, so the position does not depend on the path.
  This is stated for the drag state in general, for a drag begun by
  \<open>handleWallMouseDown\<close> on a wall photo \<open>p\<close>, and for one begun by \<open>handleStagedMouseDown\<close>
  (from the current render and from any other).
\<close>

theorem drag_position_from_last_pointer:
  "(\<forall>d i. dragState s = Some d \<and> i < length (photos s) \<and>
      photo_id (photos s ! i) = drag_id d \<longrightarrow>
      position (photos (handleGlobalMouseMove e s) ! i) =
        \<lparr>pos_x = pos_x (initialPhotoPos d) + clientX e - startX d,
         pos_y = pos_y (initialPhotoPos d) + clientY e - startY d\<rparr>) \<and>
   mouseMoves (es @ [e]) s = handleGlobalMouseMove e s \<and>
   (\<forall>i. i < length (photos s) \<and> photos s ! i = p \<longrightarrow>
      position (photos (mouseMoves (es @ [e]) (handleWallMouseDown e0 p s)) ! i) =
        \<lparr>pos_x = pos_x (position p) + clientX e - clientX e0,
         pos_y = pos_y (position p) + clientY e - clientY e0\<rparr>) \<and>
   (\<forall>st rect. stagedPhoto s = Some st \<longrightarrow>
      position (last (photos (mouseMoves (es @ [e])
          (handleStagedMouseDown e0 (Some rect) (stagedPhoto s) s)))) =
        \<lparr>pos_x = pos_x (position (last (photos
                    (handleStagedMouseDown e0 (Some rect) (stagedPhoto s) s))))
                  + clientX e - clientX e0,
         pos_y = pos_y (position (last (photos
                    (handleStagedMouseDown e0 (Some rect) (stagedPhoto s) s))))
                  + clientY e - clientY e0\<rparr>) \<and>
   (\<forall>r rect.
      position (last (photos (mouseMoves (es @ [e])
          (handleStagedMouseDown e0 (Some rect) (Some r) s)))) =
        \<lparr>pos_x = pos_x (position (last (photos
                    (handleStagedMouseDown e0 (Some rect) (Some r) s))))
                  + clientX e - clientX e0,
         pos_y = pos_y (position (last (photos
                    (handleStagedMouseDown e0 (Some rect) (Some r) s))))
                  + clientY e - clientY e0\<rparr>)"
proof -
  have step: "\<forall>d i. dragState s = Some d \<and> i < length (photos s) \<and>
      photo_id (photos s ! i) = drag_id d \<longrightarrow>
      position (photos (handleGlobalMouseMove e s) ! i) =
        \<lparr>pos_x = pos_x (initialPhotoPos d) + clientX e - startX d,
         pos_y = pos_y (initialPhotoPos d) + clientY e - startY d\<rparr>"
    by (simp add: move_nth)
  have wall: "\<forall>i. i < length (photos s) \<and> photos s ! i = p \<longrightarrow>
      position (photos (mouseMoves (es @ [e]) (handleWallMouseDown e0 p s)) ! i) =
        \<lparr>pos_x = pos_x (position p) + clientX e - clientX e0,
         pos_y = pos_y (position p) + clientY e - clientY e0\<rparr>"
    by (simp add: mouseMoves_last move_nth[OF wallDown_frame(4)] wallDown_frame wallDown_nth)
  have stale: "\<forall>r rect.
      position (last (photos (mouseMoves (es @ [e])
          (handleStagedMouseDown e0 (Some rect) (Some r) s)))) =
        \<lparr>pos_x = pos_x (position (last (photos
                    (handleStagedMouseDown e0 (Some rect) (Some r) s))))
                  + clientX e - clientX e0,
         pos_y = pos_y (position (last (photos
                    (handleStagedMouseDown e0 (Some rect) (Some r) s))))
                  + clientY e - clientY e0\<rparr>"
    by (simp add: mouseMoves_last handleStagedMouseDown_Some handleGlobalMouseMove_def Let_def)
  have staged: "\<forall>st rect. stagedPhoto s = Some st \<longrightarrow>
      position (last (photos (mouseMoves (es @ [e])
          (handleStagedMouseDown e0 (Some rect) (stagedPhoto s) s)))) =
        \<lparr>pos_x = pos_x (position (last (photos
                    (handleStagedMouseDown e0 (Some rect) (stagedPhoto s) s))))
                  + clientX e - clientX e0,
         pos_y = pos_y (position (last (photos
                    (handleStagedMouseDown e0 (Some rect) (stagedPhoto s) s))))
                  + clientY e - clientY e0\<rparr>"
    using stale by simp
  show ?thesis
    using step wall staged stale mouseMoves_last[of es e s] by simp
qed

theorem drag_position_from_last_pointer_witness:
  "photos (mouseMoves [moveVia, moveTo] draggingState) =
     [photoA, photoB\<lparr>position := \<lparr>pos_x = 320, pos_y = 37\<rparr>\<rparr>] \<and>
   photos (mouseMoves [moveVia, moveTo] (handleWallMouseDown clickAt photoA wallState)) =
     [photoA\<lparr>position := \<lparr>pos_x = 30, pos_y = 17\<rparr>, zIndex := 104\<rparr>, photoB] \<and>
   photos (mouseMoves [moveVia, moveTo]
       (handleStagedMouseDown clickAt (Some cameraRect) (stagedPhoto wallState) wallState)) =
     [photoA, photoB, photoC\<lparr>position := \<lparr>pos_x = 189, pos_y = 417\<rparr>, zIndex := 100\<rparr>]"
  using drag_position_from_last_pointer[of draggingState moveTo "[moveVia]" photoA clickAt]
    drag_position_from_last_pointer[of wallState moveTo "[moveVia]" photoA clickAt]
  by (simp add: handleGlobalMouseMove_def handleWallMouseDown_def Math_max_def
      handleStagedMouseDown_Some Let_def sample_defs)

text \<open>
  Promotion copies the photo of the handler's render: whatever the current slot holds,
  the slot is emptied and the rendered photo is appended to the wall with a new position
  and \<open>zIndex\<close> 100, its other fields as rendered; the photos that were on the wall stay.
  When the render is current (the rendered photo is the one in the slot), this is the
  staged photo itself.
\<close>

lemma promotion_of_rendered_photo:
  "stagedPhoto (handleStagedMouseDown e (Some rect) (Some r) s) = None \<and>
   photos (handleStagedMouseDown e (Some rect) (Some r) s) =
     photos s @
       [r\<lparr>position := \<lparr>pos_x = rect_left rect + rect_width rect / 2 - 120,
                         pos_y = rect_top rect - 80\<rparr>,
          zIndex := 100\<rparr>] \<and>
   cameraError (handleStagedMouseDown e (Some rect) (Some r) s) = cameraError s"
  by (simp add: handleStagedMouseDown_Some)

lemma promotion_of_current_render:
  "stagedPhoto s = Some p \<Longrightarrow>
   stagedPhoto (handleStagedMouseDown e (Some rect) (stagedPhoto s) s) = None \<and>
   photos (handleStagedMouseDown e (Some rect) (stagedPhoto s) s) =
     photos s @
       [p\<lparr>position := \<lparr>pos_x = rect_left rect + rect_width rect / 2 - 120,
                         pos_y = rect_top rect - 80\<rparr>,
          zIndex := 100\<rparr>]"
  by (simp add: handleStagedMouseDown_Some)

text \<open>
  Claim C5 says that promotion appends the staged photo with its \<open>caption\<close>,
  \<open>isLoadingCaption\<close> and \<open>isDeveloping\<close> preserved. The source breaks this when a callback of
  \<open>takePhoto\<close> has run since the handler's render. On the sample wall the staged photo
  \<open>3\<close> is rendered without a caption; its caption fetch then resolves with \<open>hello\<close>, so the
  slot holds the caption and \<open>isLoadingCaption\<close> false; a mouse-down handled by the
  handler of the earlier render appends the photo with an empty caption and
  \<open>isLoadingCaption\<close> true and empties the slot, and the caption is gone. In the same way,
  after the timer step the slot has \<open>isDeveloping\<close> false and the appended photo has it
  true. The callbacks themselves use functional updates on both cells so that the photo
  is reached wherever it is; the handler spreads the constant of its render instead.
\<close>

theorem promotion_loses_arrived_updates:
  "stagedPhoto (captionResolved ''3'' ''hello'' wallState) =
     Some (photoC\<lparr>caption := ''hello'', isLoadingCaption := False\<rparr>) \<and>
   stagedPhoto (handleStagedMouseDown clickAt (Some cameraRect) (Some photoC)
       (captionResolved ''3'' ''hello'' wallState)) = None \<and>
   photos (handleStagedMouseDown clickAt (Some cameraRect) (Some photoC)
       (captionResolved ''3'' ''hello'' wallState)) =
     [photoA, photoB, photoC\<lparr>position := \<lparr>pos_x = 169, pos_y = 420\<rparr>, zIndex := 100\<rparr>] \<and>
   caption (last (photos (handleStagedMouseDown clickAt (Some cameraRect) (Some photoC)
       (captionResolved ''3'' ''hello'' wallState)))) = [] \<and>
   isLoadingCaption (last (photos (handleStagedMouseDown clickAt (Some cameraRect) (Some photoC)
       (captionResolved ''3'' ''hello'' wallState)))) \<and>
   stagedPhoto (timerFired ''3'' wallState) = Some (photoC\<lparr>isDeveloping := False\<rparr>) \<and>
   isDeveloping (last (photos (handleStagedMouseDown clickAt (Some cameraRect) (Some photoC)
       (timerFired ''3'' wallState))))"
  by (simp add: handleStagedMouseDown_Some captionResolved_def updateFn_def timerFired_def
      clearDevFn_def sample_defs)

text \<open>
  Claim C10. A mouse-down on a wall photo \<open>p\<close> gives every wall photo with the id of \<open>p\<close>
  the \<open>zIndex\<close> one plus the maximum of 100 and all \<open>zIndex\<close> values of the wall before
  the call. That value is at least 101 and strictly above the \<open>zIndex\<close> of every wall
  photo before the call, hence above every wall photo with another id after it. The
  other fields of the photos with the id of \<open>p\<close>, the photos with another id, the staged
  slot and the camera error are unchanged.
\<close>

theorem wall_mouse_down_brings_to_front:
  "length (photos (handleWallMouseDown e p s)) = length (photos s) \<and>
   (\<forall>i < length (photos s).
      photos (handleWallMouseDown e p s) ! i =
        (if photo_id (photos s ! i) = photo_id p
         then (photos s ! i)\<lparr>zIndex := Max (insert 100 (zIndex ` set (photos s))) + 1\<rparr>
         else photos s ! i)) \<and>
   101 \<le> Max (insert 100 (zIndex ` set (photos s))) + 1 \<and>
   (\<forall>q \<in> set (photos s). zIndex q < Max (insert 100 (zIndex ` set (photos s))) + 1) \<and>
   (\<forall>q \<in> set (photos (handleWallMouseDown e p s)).
      photo_id q \<noteq> photo_id p \<longrightarrow>
        zIndex q < Max (insert 100 (zIndex ` set (photos s))) + 1) \<and>
   (\<forall>i j. i < length (photos s) \<and> j < length (photos s) \<and>
      photo_id (photos s ! i) = photo_id p \<and> photo_id (photos s ! j) \<noteq> photo_id p \<longrightarrow>
        zIndex (photos (handleWallMouseDown e p s) ! j) <
          zIndex (photos (handleWallMouseDown e p s) ! i)) \<and>
   stagedPhoto (handleWallMouseDown e p s) = stagedPhoto s \<and>
   cameraError (handleWallMouseDown e p s) = cameraError s"
proof -
  let ?m = "Max (insert 100 (zIndex ` set (photos s))) + 1"
  have m: "Math_max (map zIndex (photos s)) 100 + 1 = ?m"
    by (simp add: Math_max_Max)
  have floor: "101 \<le> ?m"
    by simp
  have above: "\<forall>q \<in> set (photos s). zIndex q < ?m"
  proof
    fix q assume "q \<in> set (photos s)"
    then have "zIndex q \<le> Max (insert 100 (zIndex ` set (photos s)))"
      by (intro Max_ge) simp_all
    then show "zIndex q < ?m" by simp
  qed
  have nth: "\<forall>i < length (photos s).
      photos (handleWallMouseDown e p s) ! i =
        (if photo_id (photos s ! i) = photo_id p then (photos s ! i)\<lparr>zIndex := ?m\<rparr>
         else photos s ! i)"
    by (simp add: wallDown_nth m)
  have others: "\<forall>q \<in> set (photos (handleWallMouseDown e p s)).
      photo_id q \<noteq> photo_id p \<longrightarrow> zIndex q < ?m"
    using above by (auto simp: handleWallMouseDown_def Let_def)
  have strict: "\<forall>i j. i < length (photos s) \<and> j < length (photos s) \<and>
      photo_id (photos s ! i) = photo_id p \<and> photo_id (photos s ! j) \<noteq> photo_id p \<longrightarrow>
        zIndex (photos (handleWallMouseDown e p s) ! j) <
          zIndex (photos (handleWallMouseDown e p s) ! i)"
    using above nth by simp
  show ?thesis
    using floor above nth others strict by (simp add: wallDown_frame)
qed

theorem wall_mouse_down_brings_to_front_witness:
  "photos (handleWallMouseDown clickAt photoA wallState) = [photoA\<lparr>zIndex := 104\<rparr>, photoB] \<and>
   photos (handleWallMouseDown clickAt photoA emptyState) = [] \<and>
   photos (handleWallMouseDown clickAt photoB repeatedState) =
     [photoA, photoB\<lparr>zIndex := 104\<rparr>, photoA] \<and>
   stagedPhoto (handleWallMouseDown clickAt photoA wallState) = Some photoC"
  using wall_mouse_down_brings_to_front[of clickAt photoA wallState]
    wall_mouse_down_brings_to_front[of clickAt photoB repeatedState]
  by (simp add: handleWallMouseDown_def Math_max_def Let_def sample_defs)

section \<open>Deleting and editing\<close>

text \<open>
  Claim C6. \<open>deletePhoto i\<close> removes exactly the wall photos with id \<open>i\<close>: none of them
  is left, the photos with another id are the same records in the same order (the
  result is a subsequence of the wall in which the photos with another id appear
  exactly as before), the number removed is the number of photos with id \<open>i\<close>, and when
  no wall photo has id \<open>i\<close> the state is unchanged. The staged slot, the camera error
  and the drag state are never touched.
\<close>

theorem deletePhoto_removes_exactly:
  "(\<forall>p \<in> set (photos (deletePhoto i s)). photo_id p \<noteq> i) \<and>
   filter (\<lambda>p. photo_id p \<noteq> i) (photos (deletePhoto i s)) =
     filter (\<lambda>p. photo_id p \<noteq> i) (photos s) \<and>
   subseq (photos (deletePhoto i s)) (photos s) \<and>
   set (photos (deletePhoto i s)) = {p \<in> set (photos s). photo_id p \<noteq> i} \<and>
   length (photos (deletePhoto i s)) + length (filter (\<lambda>p. photo_id p = i) (photos s)) =
     length (photos s) \<and>
   ((\<forall>p \<in> set (photos s). photo_id p \<noteq> i) \<longrightarrow> deletePhoto i s = s) \<and>
   stagedPhoto (deletePhoto i s) = stagedPhoto s \<and>
   cameraError (deletePhoto i s) = cameraError s \<and>
   dragState (deletePhoto i s) = dragState s"
proof -
  have len: "length (filter (\<lambda>p. photo_id p \<noteq> i) xs) + length (filter (\<lambda>p. photo_id p = i) xs)
      = length xs" for xs :: "PhotoData list"
    by (induction xs) simp_all
  have same: "(\<forall>p \<in> set (photos s). photo_id p \<noteq> i) \<longrightarrow> deletePhoto i s = s"
    by (simp add: deletePhoto_def)
  show ?thesis
    using len[of "photos s"] same by (auto simp: deletePhoto_def)
qed

theorem deletePhoto_removes_exactly_witness:
  "photos (deletePhoto ''1'' repeatedState) = [photoB] \<and>
   deletePhoto ''7'' repeatedState = repeatedState"
  using deletePhoto_removes_exactly[of "''1''" repeatedState]
    deletePhoto_removes_exactly[of "''7''" repeatedState]
  by (simp add: deletePhoto_def sample_defs)

text \<open>
  Claim C7. Saving an edit on a wall card sets the caption of the wall photos with the
  card's id to the edit buffer and changes no other field, no other photo and nothing
  else of the state; it closes the editor. Cancelling sets the edit buffer to the
  photo's caption, closes the editor and leaves the state as it is. (On the staged card
  \<open>onUpdate\<close> does nothing, so saving there changes no photo.)
\<close>

theorem saveEdit_sets_caption_only:
  "length (photos (fst (saveEdit updatePhoto photo ps s))) = length (photos s) \<and>
   (\<forall>i < length (photos s).
      photos (fst (saveEdit updatePhoto photo ps s)) ! i =
        (if photo_id (photos s ! i) = photo_id photo
         then (photos s ! i)\<lparr>caption := editText ps\<rparr>
         else photos s ! i)) \<and>
   stagedPhoto (fst (saveEdit updatePhoto photo ps s)) = stagedPhoto s \<and>
   cameraError (fst (saveEdit updatePhoto photo ps s)) = cameraError s \<and>
   dragState (fst (saveEdit updatePhoto photo ps s)) = dragState s \<and>
   snd (saveEdit updatePhoto photo ps s) = ps\<lparr>isEditing := False\<rparr> \<and>
   fst (cancelEdit onUpdate photo ps s) = s \<and>
   snd (cancelEdit onUpdate photo ps s) = ps\<lparr>editText := caption photo, isEditing := False\<rparr> \<and>
   editText (snd (cancelEdit onUpdate photo ps s)) = caption photo \<and>
   fst (saveEdit onUpdateStaged photo ps s) = s"
  by (simp add: saveEdit_def cancelEdit_def updatePhoto_def onUpdateStaged_def
      spread_caption_only)

theorem saveEdit_sets_caption_only_witness:
  "photos (fst (saveEdit updatePhoto photoB editingCard wallState)) =
     [photoA, photoB\<lparr>caption := ''edited''\<rparr>] \<and>
   stagedPhoto (fst (saveEdit updatePhoto photoB editingCard wallState)) = Some photoC \<and>
   cancelEdit updatePhoto photoA editingCard wallState =
     (wallState, \<lparr>isHovering = True, isEditing = False, editText = ''first''\<rparr>)"
  using saveEdit_sets_caption_only[of photoB editingCard wallState updatePhoto]
    saveEdit_sets_caption_only[of photoA editingCard wallState updatePhoto]
  by (simp add: saveEdit_def cancelEdit_def updatePhoto_def spread_caption_only sample_defs)

section \<open>The caption service\<close>

text \<open>
  Claim C8. \<open>generateCaption\<close> always resolves, with a non-empty string: the text
  \<open>Memories are timeless...\<close> when the API key is missing, \<open>A moment frozen in time.\<close>
  when the external call throws, \<open>A beautiful moment captured.\<close> when the response has no
  text or a text that is empty after trimming, and the trimmed text otherwise.
\<close>

theorem generateCaption_always_resolves:
  "\<exists>c. generateCaption env img = Resolved c \<and> c \<noteq> [] \<and>
     (\<not> truthy (API_KEY env) \<longrightarrow> c = ''Memories are timeless...'') \<and>
     (truthy (API_KEY env) \<and>
      generateContent env (cleanBase64 img) (orElse (language env) ''en-US'') = Throws \<longrightarrow>
        c = ''A moment frozen in time.'') \<and>
     (truthy (API_KEY env) \<and>
      generateContent env (cleanBase64 img) (orElse (language env) ''en-US'') = Response None \<longrightarrow>
        c = ''A beautiful moment captured.'') \<and>
     (truthy (API_KEY env) \<and>
      generateContent env (cleanBase64 img) (orElse (language env) ''en-US'') = Response (Some [])
        \<longrightarrow> c = ''A beautiful moment captured.'') \<and>
     (\<forall>t. truthy (API_KEY env) \<and>
        generateContent env (cleanBase64 img) (orElse (language env) ''en-US'') = Response (Some t)
          \<longrightarrow> c = (if trim t = [] then ''A beautiful moment captured.'' else trim t))"
proof (cases "truthy (API_KEY env)")
  case False
  then show ?thesis by (simp add: generateCaption_def)
next
  case True
  show ?thesis
  proof (cases "generateContent env (cleanBase64 img) (orElse (language env) ''en-US'')")
    case Throws
    with True show ?thesis by (simp add: generateCaption_def tryBody_def)
  next
    case (Response v)
    with True show ?thesis
      by (cases v) (simp_all add: generateCaption_def tryBody_def orElse_simps trim_Nil)
  qed
qed

theorem generateCaption_always_resolves_witness:
  "generateCaption noKeyEnv ''data:image/jpeg;base64,QUJD'' = Resolved ''Memories are timeless...'' \<and>
   generateCaption throwingEnv ''data:image/jpeg;base64,QUJD'' = Resolved ''A moment frozen in time.'' \<and>
   generateCaption absentEnv ''data:image/jpeg;base64,QUJD'' =
     Resolved ''A beautiful moment captured.'' \<and>
   generateCaption blankEnv ''data:image/jpeg;base64,QUJD'' =
     Resolved ''A beautiful moment captured.'' \<and>
   generateCaption answeringEnv ''data:image/jpeg;base64,QUJD'' =
     Resolved ''Warm light, old friends''"
  using generateCaption_always_resolves[of noKeyEnv "''data:image/jpeg;base64,QUJD''"]
    generateCaption_always_resolves[of throwingEnv "''data:image/jpeg;base64,QUJD''"]
    generateCaption_always_resolves[of absentEnv "''data:image/jpeg;base64,QUJD''"]
    generateCaption_always_resolves[of blankEnv "''data:image/jpeg;base64,QUJD''"]
    generateCaption_always_resolves[of answeringEnv "''data:image/jpeg;base64,QUJD''"]
  by (simp add: generateCaption_def tryBody_def orElse_def truthy_def trim_def isWhiteSpace_def
      sample_defs)

section \<open>The guards of the shutter\<close>




end
